theory Spec2Isabelle
  imports Complex_Main "HOL-Library.Sublist"
begin

section \<open>Text normalizer: \<open>_format_messages_to_text\<close>\<close>

text \<open>
  Source: \<^verbatim>\<open>src/data/dataset_analyzer.py\<close> and \<^verbatim>\<open>src/data/dataset_splitter.py\<close> of
  \<^verbatim>\<open>fine-tuning-project\<close> hold the same function, once with an f-string and once with
  \<^verbatim>\<open>str.format\<close>; one definition embeds both.

  A message is a Python dict with string values: a map from field name to string.
  The argument \<open>messages\<close> may be \<open>None\<close> (here \<open>None\<close>) or a list (here \<open>Some ms\<close>).
\<close>

type_synonym message = "string \<rightharpoonup> string"

definition dict_get :: "('k \<rightharpoonup> 'v) \<Rightarrow> 'k \<Rightarrow> 'v \<Rightarrow> 'v" where
  \<comment> \<open>\<^verbatim>\<open>d.get(k, default)\<close>\<close>
  "dict_get d k dflt = (case d k of None \<Rightarrow> dflt | Some v \<Rightarrow> v)"

fun str_join :: "string \<Rightarrow> string list \<Rightarrow> string" where
  \<comment> \<open>\<^verbatim>\<open>sep.join(parts)\<close>\<close>
  "str_join sep [] = []"
| "str_join sep [p] = p"
| "str_join sep (p # q # ps) = p @ sep @ str_join sep (q # ps)"

definition newline :: string where
  "newline = [CHR 0x0A]"

definition format_message :: "message \<Rightarrow> string" where
  \<comment> \<open>the body of the loop: \<^verbatim>\<open>f"{role}: {content}"\<close>\<close>
  "format_message msg =
     (let role = dict_get msg ''role'' ''user'';
          content = dict_get msg ''content'' ''''
      in role @ '': '' @ content)"

fun format_loop :: "message list \<Rightarrow> string list \<Rightarrow> string list" where
  \<comment> \<open>\<^verbatim>\<open>for msg in messages: formatted_text.append(...)\<close>, the list built so far as accumulator\<close>
  "format_loop [] formatted_text = formatted_text"
| "format_loop (msg # msgs) formatted_text =
     format_loop msgs (formatted_text @ [format_message msg])"

definition format_messages_to_text :: "message list option \<Rightarrow> string" where
  "format_messages_to_text messages =
     (case messages of
        None \<Rightarrow> ''''
      | Some [] \<Rightarrow> ''''
      | Some (m # ms) \<Rightarrow> str_join newline (format_loop (m # ms) []))"

text \<open>The format the specification describes, written from its words: one line
  \<open><role>: <content>\<close> per message, the lines joined with a newline.\<close>

definition spec_line :: "message \<Rightarrow> string" where
  "spec_line msg =
     (case msg ''role'' of None \<Rightarrow> ''user'' | Some r \<Rightarrow> r) @ '': '' @
     (case msg ''content'' of None \<Rightarrow> '''' | Some c \<Rightarrow> c)"

definition spec_flatten :: "message list \<Rightarrow> string" where
  "spec_flatten msgs = str_join newline (map spec_line msgs)"


section \<open>LoRA parameter selector: \<open>get_dynamic_lora_config\<close>\<close>

text \<open>
  Source: \<^verbatim>\<open>fine-tuning-tpu/src/models/lora_config.py\<close>. Strings are lists of 8-bit
  characters read as code points; \<open>str.lower\<close> maps the upper-case letters of that range
  (A to Z, and the Latin-1 capitals other than the multiplication sign) to lower case.
\<close>

definition lower_char :: "char \<Rightarrow> char" where
  "lower_char c =
     (let n = (of_char c :: nat)
      in if (65 \<le> n \<and> n \<le> 90) \<or> (192 \<le> n \<and> n \<le> 222 \<and> n \<noteq> 215)
         then char_of (n + 32) else c)"

definition lower :: "string \<Rightarrow> string" where
  "lower s = map lower_char s"

definition str_in :: "string \<Rightarrow> string \<Rightarrow> bool" where
  \<comment> \<open>\<^verbatim>\<open>sub in s\<close> on strings: \<open>sub\<close> occurs as a contiguous piece of \<open>s\<close>\<close>
  "str_in sub s = sublist sub s"

record lora_config =
  r :: int
  lora_alpha :: int
  target_modules :: "string list"
  lora_dropout :: int
  bias :: string
  task_type :: string
  use_rslora :: bool
  lora_gradient_checkpointing :: string

definition target_modules_list :: "string list" where
  "target_modules_list =
     [''q_proj'', ''k_proj'', ''v_proj'', ''o_proj'', ''gate_proj'', ''up_proj'', ''down_proj'']"

definition rank_alpha :: "string \<Rightarrow> int \<times> int" where
  \<comment> \<open>the \<^verbatim>\<open>if/elif/else\<close> chain on \<open>model_lower\<close>\<close>
  "rank_alpha model_lower =
     (if str_in ''0.5b'' model_lower \<or> str_in ''0.6b'' model_lower \<or> str_in ''270m'' model_lower
      then (8, 16)
      else if str_in ''1.5b'' model_lower \<or> str_in ''1b'' model_lower \<or> str_in ''1.7b'' model_lower
      then (16, 32)
      else if str_in ''6b'' model_lower \<or> str_in ''7b'' model_lower
      then (32, 64)
      else (16, 32))"

definition get_dynamic_lora_config :: "string \<Rightarrow> int \<Rightarrow> lora_config" where
  "get_dynamic_lora_config model_name max_seq_length =
     (let model_lower = lower model_name;
          (rk, alpha) = rank_alpha model_lower;
          rslora = (str_in ''6b'' model_lower \<or> str_in ''7b'' model_lower)
      in \<lparr> r = rk, lora_alpha = alpha, target_modules = target_modules_list,
           lora_dropout = 0, bias = ''none'', task_type = ''CAUSAL_LM'',
           use_rslora = rslora, lora_gradient_checkpointing = ''unsloth'' \<rparr>)"


section \<open>Errors\<close>

text \<open>Every \<^verbatim>\<open>raise\<close>, failed \<^verbatim>\<open>assert\<close> and failing primitive operation of the modelled
  functions is a value of this type.\<close>

datatype error =
    MissingMessagesColumn
      \<comment> \<open>\<^verbatim>\<open>ValueError\<close>, "Dataset does not contain a messages column"; the specification's \<open>MissingField\<close>\<close>
  | TextColumnNotCreated
      \<comment> \<open>\<^verbatim>\<open>ValueError\<close>, "FATAL: text column was not created"; the specification's \<open>DerivationFailure\<close>\<close>
  | AssertionError string
      \<comment> \<open>a failed \<^verbatim>\<open>assert\<close> with its message; the specification's \<open>InvalidConfiguration\<close>\<close>
  | NameError
      \<comment> \<open>a global name that the module does not bind\<close>
  | IndexError
  | KeyError
  | TypeError
  | ZeroDivisionError
  | LibraryError string
      \<comment> \<open>an exception raised inside the dataset library's \<^verbatim>\<open>train_test_split\<close>\<close>


section \<open>Datasets\<close>

text \<open>
  The \<^verbatim>\<open>datasets\<close> library is an external collaborator of the repository. A dataset is
  an ordered collection of records with named, typed columns. The three columns the
  functions below read or write are fields of the record; a cell that is null, or whose
  column the dataset does not have, is \<open>None\<close>. \<open>column_names\<close> is the dataset's
  \<^verbatim>\<open>column_names\<close>.
\<close>

record row =
  messages :: "message list option"
  text_col :: "string option"
  length_col :: "nat option"

record dataset =
  column_names :: "string list"
  rows :: "row list"

definition add_column :: "string \<Rightarrow> string list \<Rightarrow> string list" where
  "add_column c cols = (if c \<in> set cols then cols else cols @ [c])"

fun map_rows :: "(row \<Rightarrow> error + row) \<Rightarrow> row list \<Rightarrow> error + row list" where
  "map_rows f [] = Inr []"
| "map_rows f (x # xs) =
     (case f x of
        Inl e \<Rightarrow> Inl e
      | Inr y \<Rightarrow> (case map_rows f xs of Inl e \<Rightarrow> Inl e | Inr ys \<Rightarrow> Inr (y # ys)))"

definition dataset_map ::
  "string \<Rightarrow> (row \<Rightarrow> error + row) \<Rightarrow> nat \<Rightarrow> dataset \<Rightarrow> error + dataset" where
  \<comment> \<open>Modelled from the spec: \<^verbatim>\<open>Dataset.map\<close> of the dataset library, the "per-record mapped
      transformation" of the specification's section 6. The function argument gives the
      record with the returned column written into it; the column is created or
      overwritten, and an exception in the function ends the call. The number of worker
      processes \<open>num_proc\<close> does not change the result.\<close>
  "dataset_map col f num_proc ds =
     (case map_rows f (rows ds) of
        Inl e \<Rightarrow> Inl e
      | Inr rs \<Rightarrow> Inr \<lparr> column_names = add_column col (column_names ds), rows = rs \<rparr>)"

definition column_length :: "dataset \<Rightarrow> error + nat list" where
  \<comment> \<open>\<^verbatim>\<open>dataset["length"]\<close>, as a list of integers ready to be sorted\<close>
  "column_length ds =
     (if ''length'' \<notin> set (column_names ds) then Inl KeyError
      else case those (map length_col (rows ds)) of None \<Rightarrow> Inl TypeError | Some ls \<Rightarrow> Inr ls)"

definition list_get :: "'a list \<Rightarrow> nat \<Rightarrow> error + 'a" where
  \<comment> \<open>\<^verbatim>\<open>xs[i]\<close> for an index that is not negative\<close>
  "list_get xs i = (if i < length xs then Inr (xs ! i) else Inl IndexError)"


section \<open>Dataset analyzer: \<open>analyze_dataset_and_configure\<close>\<close>

text \<open>
  Source: \<^verbatim>\<open>fine-tuning-project/src/data/dataset_analyzer.py\<close>.

  Both calls of \<^verbatim>\<open>dataset.map\<close> pass \<^verbatim>\<open>num_proc=os.cpu_count() // 2 or 1\<close>, and the
  module never imports \<open>os\<close> (the sibling module \<^verbatim>\<open>dataset_splitter.py\<close>, which passes the
  same argument, does). What the name \<open>os\<close> is bound to is therefore a parameter of the
  model, \<open>os_cpu_count\<close>; for the module as it is written the parameter is \<open>module_os\<close>.

  The index of the percentile is \<^verbatim>\<open>int(len(lengths) * 0.95)\<close>, a product of binary64
  floating-point numbers. It is modelled exactly: \<open>0.95\<close> is the double
  \<open>8556839292003942 / 2^53\<close>, the integer \<open>len(lengths)\<close> is converted to the nearest
  double, the exact product is rounded to 53 significant bits (to nearest, ties to
  even), and \<open>int\<close> truncates. Overflow cannot occur at the length of a list.
\<close>

definition num_proc_value :: "nat option option \<Rightarrow> error + nat" where
  \<comment> \<open>\<^verbatim>\<open>os.cpu_count() // 2 or 1\<close>. The argument is what the module's namespace holds for
      the name \<open>os\<close>: \<open>None\<close> when the name is unbound, otherwise the value of
      \<open>os.cpu_count()\<close>, which is \<open>None\<close> or a number.\<close>
  "num_proc_value os_cpu_count =
     (case os_cpu_count of
        None \<Rightarrow> Inl NameError
      | Some None \<Rightarrow> Inl TypeError
      | Some (Some n) \<Rightarrow> Inr (if n div 2 = 0 then 1 else n div 2))"

definition module_os :: "nat option option" where
  \<comment> \<open>\<^verbatim>\<open>dataset_analyzer.py\<close> has no import statement: it binds no name \<open>os\<close>\<close>
  "module_os = None"

fun bit_length :: "nat \<Rightarrow> nat" where
  \<comment> \<open>the number of binary digits of \<open>n\<close>\<close>
  "bit_length n = (if n = 0 then 0 else Suc (bit_length (n div 2)))"

declare bit_length.simps [simp del]

definition round_to_double :: "nat \<Rightarrow> nat" where
  \<comment> \<open>the nearest natural number with at most 53 significant bits, ties to even\<close>
  "round_to_double p =
     (let b = bit_length p
      in if b \<le> 53 then p
         else let s = b - 53; q = p div 2 ^ s; rest = p mod 2 ^ s; half = 2 ^ (s - 1)
              in (if half < rest \<or> (rest = half \<and> odd q) then q + 1 else q) * 2 ^ s)"

definition p95_index :: "nat \<Rightarrow> nat" where
  \<comment> \<open>\<^verbatim>\<open>int(n * 0.95)\<close>; the rounded product is held as a multiple of \<open>2^-53\<close>\<close>
  "p95_index n = round_to_double (round_to_double n * 8556839292003942) div 2 ^ 53"

record dynamic_config =
  max_seq_length :: int
  per_device_train_batch_size :: int
  gradient_accumulation_steps :: int
  effective_batch_size :: int
  use_gradient_checkpointing :: bool

definition token_lengths ::
  "nat option option \<Rightarrow> dataset \<Rightarrow> (string \<Rightarrow> nat list) \<Rightarrow> error + (dataset \<times> nat list)" where
  \<comment> \<open>lines 22 to 54: the column checks, the two \<^verbatim>\<open>map\<close> calls with their arguments, and
      the sorted lengths. The \<open>messages\<close> column being present, the default of
      \<^verbatim>\<open>x.get("messages", [])\<close> is never taken.\<close>
  "token_lengths os_cpu_count dataset tokenizer =
     (if ''messages'' \<notin> set (column_names dataset) then Inl MissingMessagesColumn
      else
        case num_proc_value os_cpu_count of
          Inl e \<Rightarrow> Inl e
        | Inr num_proc1 \<Rightarrow>
        (case dataset_map ''text''
                (\<lambda>x. Inr (x\<lparr>text_col := Some (format_messages_to_text (messages x))\<rparr>))
                num_proc1 dataset of
           Inl e \<Rightarrow> Inl e
         | Inr dataset1 \<Rightarrow>
            if ''text'' \<notin> set (column_names dataset1) then Inl TextColumnNotCreated
            else
              (case num_proc_value os_cpu_count of
                 Inl e \<Rightarrow> Inl e
               | Inr num_proc2 \<Rightarrow>
              (case dataset_map ''length''
                      (\<lambda>x. (case text_col x of
                               None \<Rightarrow> Inl KeyError
                             | Some t \<Rightarrow> Inr (x\<lparr>length_col := Some (length (tokenizer t))\<rparr>)))
                      num_proc2 dataset1 of
                 Inl e \<Rightarrow> Inl e
               | Inr dataset2 \<Rightarrow>
                   (case column_length dataset2 of
                      Inl e \<Rightarrow> Inl e
                    | Inr ls \<Rightarrow> Inr (dataset2, sort ls))))))"

definition determine_max_seq_length :: "int \<Rightarrow> nat \<Rightarrow> int" where
  \<comment> \<open>lines 59 and 60\<close>
  "determine_max_seq_length max_length p95_length =
     max (min max_length (int p95_length + 256)) 512"

definition configure :: "int \<Rightarrow> rat \<Rightarrow> nat \<Rightarrow> dynamic_config" where
  \<comment> \<open>lines 58 to 89: everything after the percentile\<close>
  "configure max_length vram_gb p95_length =
     (let determined = determine_max_seq_length max_length p95_length;
          (batch, accum, determined') =
            (if 16 \<le> vram_gb then
               (if determined \<le> 1024 then (2, 8, determined)
                else if determined \<le> 2048 then (1, 16, determined)
                else if determined \<le> 4096 then (1, 32, determined)
                else (1, 64, min determined 8192))
             else (1, 16, determined))
      in \<lparr> max_seq_length = determined',
           per_device_train_batch_size = batch,
           gradient_accumulation_steps = accum,
           effective_batch_size = batch * accum,
           use_gradient_checkpointing = True \<rparr>)"

definition analyze_dataset_and_configure ::
  "nat option option \<Rightarrow> dataset \<Rightarrow> (string \<Rightarrow> nat list) \<Rightarrow> int \<Rightarrow> rat
     \<Rightarrow> error + (dataset \<times> dynamic_config)" where
  "analyze_dataset_and_configure os_cpu_count dataset tokenizer max_length vram_gb =
     (case token_lengths os_cpu_count dataset tokenizer of
        Inl e \<Rightarrow> Inl e
      | Inr (dataset2, lengths) \<Rightarrow>
          (case list_get lengths (p95_index (length lengths)) of
             Inl e \<Rightarrow> Inl e
           | Inr p95_length \<Rightarrow> Inr (dataset2, configure max_length vram_gb p95_length)))"


section \<open>Dataset partitioner: \<open>split_dataset\<close>\<close>

text \<open>
  Source: \<^verbatim>\<open>fine-tuning-project/src/data/dataset_splitter.py\<close>.

  \<^verbatim>\<open>Dataset.train_test_split\<close> belongs to the dataset library, not to the repository, and
  the specification describes it only as a seeded binary split by fraction. It is a
  parameter of the model: for a number of records, a test fraction and a seed it either
  raises, or gives the positions of the records of the train part and of the test part.
  The ratios are Python floats; they are modelled as rationals and their arithmetic as
  exact.
\<close>

type_synonym splitter = "nat \<Rightarrow> rat \<Rightarrow> int \<Rightarrow> string + (nat list \<times> nat list)"

definition select_rows :: "dataset \<Rightarrow> nat list \<Rightarrow> dataset" where
  "select_rows ds idx = ds\<lparr>rows := map (\<lambda>i. rows ds ! i) idx\<rparr>"

definition train_test_split ::
  "splitter \<Rightarrow> dataset \<Rightarrow> rat \<Rightarrow> int \<Rightarrow> error + (dataset \<times> dataset)" where
  "train_test_split sp ds test_size seed =
     (case sp (length (rows ds)) test_size seed of
        Inl msg \<Rightarrow> Inl (LibraryError msg)
      | Inr (train_idx, test_idx) \<Rightarrow>
          if list_all (\<lambda>i. i < length (rows ds)) (train_idx @ test_idx)
          then Inr (select_rows ds train_idx, select_rows ds test_idx)
          else Inl IndexError)"

definition split_dataset ::
  "splitter \<Rightarrow> dataset \<Rightarrow> rat \<Rightarrow> rat \<Rightarrow> rat \<Rightarrow> int \<Rightarrow> error + (dataset \<times> dataset \<times> dataset)" where
  \<comment> \<open>the result is the triple (train, validation, test); the percentages printed at
      the end divide by \<open>total_samples\<close>\<close>
  "split_dataset sp dataset train_ratio val_ratio test_ratio seed =
     (let total_samples = length (rows dataset)
      in if \<not> \<bar>train_ratio + val_ratio + test_ratio - 1\<bar> < 1 / 1000000
         then Inl (AssertionError ''Ratios must sum to 1.0'')
         else
           let train_val_ratio = train_ratio + val_ratio
           in case train_test_split sp dataset test_ratio seed of
                Inl e \<Rightarrow> Inl e
              | Inr (train_val_dataset, test_dataset) \<Rightarrow>
                  if train_val_ratio = 0 then Inl ZeroDivisionError
                  else
                    (case train_test_split sp train_val_dataset
                            (val_ratio / train_val_ratio) seed of
                       Inl e \<Rightarrow> Inl e
                     | Inr (train_dataset, val_dataset) \<Rightarrow>
                         if total_samples = 0 then Inl ZeroDivisionError
                         else Inr (train_dataset, val_dataset, test_dataset)))"

text \<open>A simple instance of the collaborator, used to run the partitioner on concrete
  inputs: it accepts every fraction between 0 and 1, orders the positions by the seed
  (ascending for an even seed, descending for an odd one) and hands the last
  \<open>\<lceil>fraction * n\<rceil>\<close> of them to the test part.\<close>

definition simple_splitter :: splitter where
  "simple_splitter n test_size seed =
     (if test_size < 0 \<or> 1 < test_size then Inl ''test_size out of range''
      else let n_test = nat \<lceil>test_size * of_nat n\<rceil>;
               perm = (if even seed then [0..<n] else rev [0..<n])
           in Inr (take (n - n_test) perm, drop (n - n_test) perm))"

definition splitter_partitions :: "splitter \<Rightarrow> bool" where
  \<comment> \<open>the contract of the collaborator: what it returns is a partition of the positions\<close>
  "splitter_partitions sp \<longleftrightarrow>
     (\<forall>n f s tr te. sp n f s = Inr (tr, te) \<longrightarrow> distinct (tr @ te) \<and> set (tr @ te) = {..<n})"


section \<open>Notions used to state the properties\<close>

definition token_length :: "(string \<Rightarrow> nat list) \<Rightarrow> row \<Rightarrow> nat" where
  \<comment> \<open>the \<open>length\<close> the analyzer writes into a record\<close>
  "token_length tokenizer x = length (tokenizer (format_messages_to_text (messages x)))"

definition annotate :: "(string \<Rightarrow> nat list) \<Rightarrow> row \<Rightarrow> row" where
  "annotate tokenizer x =
     x\<lparr>text_col := Some (format_messages_to_text (messages x)),
       length_col := Some (token_length tokenizer x)\<rparr>"

definition annotated_dataset :: "(string \<Rightarrow> nat list) \<Rightarrow> dataset \<Rightarrow> dataset" where
  \<comment> \<open>the dataset the analyzer returns\<close>
  "annotated_dataset tokenizer ds =
     \<lparr> column_names = add_column ''length'' (add_column ''text'' (column_names ds)),
       rows = map (annotate tokenizer) (rows ds) \<rparr>"

definition p95_length_of :: "dataset \<Rightarrow> (string \<Rightarrow> nat list) \<Rightarrow> nat" where
  \<comment> \<open>the value of \<open>p95_length\<close> on a dataset with at least one record\<close>
  "p95_length_of ds tokenizer =
     sort (map (token_length tokenizer) (rows ds)) ! p95_index (length (rows ds))"

definition config_of :: "error + (dataset \<times> dynamic_config) \<Rightarrow> dynamic_config option" where
  \<comment> \<open>the configuration of a call that returned\<close>
  "config_of res = (case res of Inl e \<Rightarrow> None | Inr (ds, cfg) \<Rightarrow> Some cfg)"

text \<open>The percentile and the sequence length as the specification words them:
  \<open>p95 = lengths[floor(0.95 * N)]\<close> on the lengths sorted ascending, and
  \<open>clamp(min(max_length, p95 + 256), lower_bound = 512, upper_bound = max_length)\<close>.\<close>

definition spec_p95 :: "nat list \<Rightarrow> nat" where
  "spec_p95 ls = sort ls ! nat \<lfloor>(95 / 100 :: rat) * of_nat (length ls)\<rfloor>"

definition spec_clamp :: "int \<Rightarrow> int \<Rightarrow> int \<Rightarrow> int" where
  "spec_clamp x lower_bound upper_bound = min upper_bound (max lower_bound x)"

definition spec_max_seq_length :: "int \<Rightarrow> nat \<Rightarrow> int" where
  "spec_max_seq_length max_length p95 =
     spec_clamp (min max_length (int p95 + 256)) 512 max_length"

text \<open>The precondition of the partitioner as the specification words it: the ratios
  are non-negative and sum to 1.0 within a tolerance of \<open>1e-6\<close>.\<close>

definition spec_valid_ratios :: "rat \<Rightarrow> rat \<Rightarrow> rat \<Rightarrow> bool" where
  "spec_valid_ratios train_ratio val_ratio test_ratio \<longleftrightarrow>
     0 \<le> train_ratio \<and> 0 \<le> val_ratio \<and> 0 \<le> test_ratio \<and>
     \<bar>train_ratio + val_ratio + test_ratio - 1\<bar> < 1 / 1000000"


section \<open>Concrete inputs\<close>

definition greeting_row :: row where
  "greeting_row =
     \<lparr> messages = Some [[''role'' \<mapsto> ''user'', ''content'' \<mapsto> ''hi'']],
       text_col = None, length_col = None \<rparr>"

definition silent_row :: row where
  "silent_row = \<lparr> messages = Some [], text_col = None, length_col = None \<rparr>"

definition conversations :: "nat \<Rightarrow> dataset" where
  \<comment> \<open>a conversational dataset of \<open>n\<close> records\<close>
  "conversations n = \<lparr> column_names = [''messages''], rows = replicate n greeting_row \<rparr>"

definition mixed_conversations :: dataset where
  \<comment> \<open>94 records without messages, then one with a message\<close>
  "mixed_conversations =
     \<lparr> column_names = [''messages''], rows = replicate 94 silent_row @ [greeting_row] \<rparr>"

definition text_only :: dataset where
  \<comment> \<open>one record, and no column but \<open>text\<close>\<close>
  "text_only =
     \<lparr> column_names = [''text''],
       rows = [\<lparr> messages = None, text_col = Some ''hello'', length_col = None \<rparr>] \<rparr>"

definition const_tokenizer :: "nat \<Rightarrow> string \<Rightarrow> nat list" where
  \<comment> \<open>a tokenizer that makes \<open>n\<close> tokens of every text\<close>
  "const_tokenizer n txt = replicate n 0"

definition two_length_tokenizer :: "string \<Rightarrow> nat list" where
  \<comment> \<open>100 tokens for the empty text, 5000 for any other\<close>
  "two_length_tokenizer txt = (if txt = [] then replicate 100 0 else replicate 5000 0)"


section \<open>Properties of the text normalizer\<close>

lemma format_loop_acc: "format_loop msgs acc = acc @ map format_message msgs"
  by (induction msgs arbitrary: acc) simp_all

lemma format_message_spec_line: "format_message msg = spec_line msg"
  by (simp add: format_message_def spec_line_def dict_get_def)

lemma format_messages_to_text_Some:
  "format_messages_to_text (Some msgs) = str_join newline (map format_message msgs)"
  by (cases msgs) (simp_all add: format_messages_to_text_def format_loop_acc)


text \<open>
  Claim C9. For every message sequence the normalizer returns one line per message, in
  order, each of the form \<open><role>: <content>\<close> with the role defaulting to \<open>user\<close> and
  the content to the empty string, the lines joined by a newline; an empty or absent
  message list gives the empty string, and the single message with role \<open>user\<close> and
  content \<open>hi\<close> gives \<open>user: hi\<close>. The function is a HOL function of its argument, so
  repeated calls on one input give one string.
\<close>

theorem format_messages_to_text_spec:
  "format_messages_to_text None = '''' \<and>
   format_messages_to_text (Some []) = '''' \<and>
   format_messages_to_text (Some msgs) = spec_flatten msgs \<and>
   format_messages_to_text (Some [[''role'' \<mapsto> ''user'', ''content'' \<mapsto> ''hi'']]) = ''user: hi''"
proof -
  have "format_messages_to_text None = ''''"
    by (simp add: format_messages_to_text_def)
  moreover have "format_messages_to_text (Some []) = ''''"
    by (simp add: format_messages_to_text_def)
  moreover have "format_messages_to_text (Some msgs) = spec_flatten msgs"
    by (simp add: format_messages_to_text_Some spec_flatten_def format_message_spec_line [abs_def])
  moreover have
    "format_messages_to_text (Some [[''role'' \<mapsto> ''user'', ''content'' \<mapsto> ''hi'']]) = ''user: hi''"
    by (simp add: format_messages_to_text_def format_message_def dict_get_def)
  ultimately show ?thesis by blast
qed


section \<open>Properties of the LoRA parameter selector\<close>

lemma str_in_trans: "str_in a b \<Longrightarrow> str_in b c \<Longrightarrow> str_in a c"
  unfolding str_in_def by (rule sublist_order.order_trans)

lemma str_in_6b_06b: "str_in ''6b'' ''0.6b''"
  by (simp add: str_in_def sublist_Cons_right prefix_Cons)

text \<open>
  Claim C6. Rank and alpha are picked by substring match on the lower-cased model name,
  the first matching tier winning: \<open>0.5b\<close>, \<open>0.6b\<close> or \<open>270m\<close> give (8, 16); otherwise
  \<open>1.5b\<close>, \<open>1b\<close> or \<open>1.7b\<close> give (16, 32); otherwise \<open>6b\<close> or \<open>7b\<close> give (32, 64); any
  other name gives (16, 32) with rank-stabilized scaling off. The target modules are
  always exactly the seven projections.
\<close>

theorem select_lora_config_tiers:
  assumes L: "L = lower model_name"
    and cfg: "cfg = get_dynamic_lora_config model_name seq_len"
  shows
   "(str_in ''0.5b'' L \<or> str_in ''0.6b'' L \<or> str_in ''270m'' L
       \<longrightarrow> r cfg = 8 \<and> lora_alpha cfg = 16) \<and>
    (\<not> (str_in ''0.5b'' L \<or> str_in ''0.6b'' L \<or> str_in ''270m'' L) \<and>
     (str_in ''1.5b'' L \<or> str_in ''1b'' L \<or> str_in ''1.7b'' L)
       \<longrightarrow> r cfg = 16 \<and> lora_alpha cfg = 32) \<and>
    (\<not> (str_in ''0.5b'' L \<or> str_in ''0.6b'' L \<or> str_in ''270m'' L) \<and>
     \<not> (str_in ''1.5b'' L \<or> str_in ''1b'' L \<or> str_in ''1.7b'' L) \<and>
     (str_in ''6b'' L \<or> str_in ''7b'' L)
       \<longrightarrow> r cfg = 32 \<and> lora_alpha cfg = 64) \<and>
    (\<not> (str_in ''0.5b'' L \<or> str_in ''0.6b'' L \<or> str_in ''270m'' L) \<and>
     \<not> (str_in ''1.5b'' L \<or> str_in ''1b'' L \<or> str_in ''1.7b'' L) \<and>
     \<not> (str_in ''6b'' L \<or> str_in ''7b'' L)
       \<longrightarrow> r cfg = 16 \<and> lora_alpha cfg = 32 \<and> \<not> use_rslora cfg) \<and>
    set (target_modules cfg) =
      {''q_proj'', ''k_proj'', ''v_proj'', ''o_proj'', ''gate_proj'', ''up_proj'', ''down_proj''} \<and>
    length (target_modules cfg) = 7"
  unfolding L cfg
  by (simp add: get_dynamic_lora_config_def rank_alpha_def Let_def target_modules_list_def)

text \<open>The four tiers at the names \<open>Qwen/Qwen3-0.6B\<close>, \<open>meta-llama/Llama-3.2-1B\<close>,
  \<open>some-7b-model\<close> and \<open>unknown-model-xyz\<close>.\<close>

theorem select_lora_config_tiers_witness:
  "(str_in ''0.6b'' (lower ''Qwen/Qwen3-0.6B'') \<and>
    r (get_dynamic_lora_config ''Qwen/Qwen3-0.6B'' 2048) = 8 \<and>
    lora_alpha (get_dynamic_lora_config ''Qwen/Qwen3-0.6B'' 2048) = 16) \<and>
   (str_in ''1b'' (lower ''meta-llama/Llama-3.2-1B'') \<and>
    r (get_dynamic_lora_config ''meta-llama/Llama-3.2-1B'' 2048) = 16 \<and>
    lora_alpha (get_dynamic_lora_config ''meta-llama/Llama-3.2-1B'' 2048) = 32) \<and>
   (str_in ''7b'' (lower ''some-7b-model'') \<and>
    r (get_dynamic_lora_config ''some-7b-model'' 2048) = 32 \<and>
    lora_alpha (get_dynamic_lora_config ''some-7b-model'' 2048) = 64) \<and>
   (r (get_dynamic_lora_config ''unknown-model-xyz'' 2048) = 16 \<and>
    lora_alpha (get_dynamic_lora_config ''unknown-model-xyz'' 2048) = 32 \<and>
    \<not> use_rslora (get_dynamic_lora_config ''unknown-model-xyz'' 2048))"
proof -
  have a1: "str_in ''0.6b'' (lower ''Qwen/Qwen3-0.6B'')" by code_simp
  have a2: "\<not> (str_in ''0.5b'' (lower ''meta-llama/Llama-3.2-1B'') \<or>
      str_in ''0.6b'' (lower ''meta-llama/Llama-3.2-1B'') \<or>
      str_in ''270m'' (lower ''meta-llama/Llama-3.2-1B''))"
    and a2': "str_in ''1b'' (lower ''meta-llama/Llama-3.2-1B'')" by code_simp+
  have a3: "\<not> (str_in ''0.5b'' (lower ''some-7b-model'') \<or>
      str_in ''0.6b'' (lower ''some-7b-model'') \<or> str_in ''270m'' (lower ''some-7b-model''))"
    and a3': "\<not> (str_in ''1.5b'' (lower ''some-7b-model'') \<or>
      str_in ''1b'' (lower ''some-7b-model'') \<or> str_in ''1.7b'' (lower ''some-7b-model''))"
    and a3'': "str_in ''7b'' (lower ''some-7b-model'')" by code_simp+
  have a4: "\<not> (str_in ''0.5b'' (lower ''unknown-model-xyz'') \<or>
      str_in ''0.6b'' (lower ''unknown-model-xyz'') \<or> str_in ''270m'' (lower ''unknown-model-xyz''))"
    and a4': "\<not> (str_in ''1.5b'' (lower ''unknown-model-xyz'') \<or>
      str_in ''1b'' (lower ''unknown-model-xyz'') \<or> str_in ''1.7b'' (lower ''unknown-model-xyz''))"
    and a4'': "\<not> (str_in ''6b'' (lower ''unknown-model-xyz'') \<or>
      str_in ''7b'' (lower ''unknown-model-xyz''))" by code_simp+
  note t = select_lora_config_tiers [OF refl refl]
  from t [of "''Qwen/Qwen3-0.6B''" 2048] a1 have 1:
    "r (get_dynamic_lora_config ''Qwen/Qwen3-0.6B'' 2048) = 8 \<and>
     lora_alpha (get_dynamic_lora_config ''Qwen/Qwen3-0.6B'' 2048) = 16" by blast
  from t [of "''meta-llama/Llama-3.2-1B''" 2048] a2 a2' have 2:
    "r (get_dynamic_lora_config ''meta-llama/Llama-3.2-1B'' 2048) = 16 \<and>
     lora_alpha (get_dynamic_lora_config ''meta-llama/Llama-3.2-1B'' 2048) = 32" by blast
  from t [of "''some-7b-model''" 2048] a3 a3' a3'' have 3:
    "r (get_dynamic_lora_config ''some-7b-model'' 2048) = 32 \<and>
     lora_alpha (get_dynamic_lora_config ''some-7b-model'' 2048) = 64" by blast
  from t [of "''unknown-model-xyz''" 2048] a4 a4' a4'' have 4:
    "r (get_dynamic_lora_config ''unknown-model-xyz'' 2048) = 16 \<and>
     lora_alpha (get_dynamic_lora_config ''unknown-model-xyz'' 2048) = 32 \<and>
     \<not> use_rslora (get_dynamic_lora_config ''unknown-model-xyz'' 2048)" by blast
  from a1 a2' a3'' 1 2 3 4 show ?thesis by blast
qed

text \<open>
  Claim C7. Every model name that contains \<open>0.6b\<close>, in any letter case, gets the
  small-model rank 8 and alpha 16 and yet has rank-stabilized scaling switched on: the
  test for that scaling looks for \<open>6b\<close>, which \<open>0.6b\<close> contains.
\<close>

theorem small_model_rank_stabilized:
  assumes "str_in ''0.6b'' (lower model_name)"
  shows "r (get_dynamic_lora_config model_name seq_len) = 8 \<and>
         lora_alpha (get_dynamic_lora_config model_name seq_len) = 16 \<and>
         use_rslora (get_dynamic_lora_config model_name seq_len)"
  using assms str_in_trans [OF str_in_6b_06b, of "lower model_name"]
  by (simp add: get_dynamic_lora_config_def rank_alpha_def Let_def)

theorem small_model_rank_stabilized_witness:
  "str_in ''0.6b'' (lower ''Qwen/Qwen3-0.6B'') \<and>
   r (get_dynamic_lora_config ''Qwen/Qwen3-0.6B'' 2048) = 8 \<and>
   lora_alpha (get_dynamic_lora_config ''Qwen/Qwen3-0.6B'' 2048) = 16 \<and>
   use_rslora (get_dynamic_lora_config ''Qwen/Qwen3-0.6B'' 2048)"
proof -
  have a: "str_in ''0.6b'' (lower ''Qwen/Qwen3-0.6B'')" by code_simp
  from small_model_rank_stabilized [OF a, of 2048] a show ?thesis by blast
qed


section \<open>The index of the percentile\<close>

text \<open>The binary64 product \<^verbatim>\<open>int(n * 0.95)\<close> is \<open>\<lfloor>19 n / 20\<rfloor>\<close> for every list
  shorter than \<open>2^48\<close>: the error of the constant and of the rounding never moves the
  product across an integer.\<close>

lemma bit_length_bounds:
  "0 < n \<Longrightarrow> 2 ^ (bit_length n - 1) \<le> n \<and> n < 2 ^ bit_length n"
proof (induction n rule: bit_length.induct)
  case (1 n)
  show ?case
  proof (cases "n div 2 = 0")
    case True
    with "1.prems" have "n = 1" by presburger
    moreover have "bit_length (Suc 0) = Suc 0"
      by (simp add: bit_length.simps [of "Suc 0"] bit_length.simps [of 0])
    ultimately show ?thesis by simp
  next
    case False
    then have pos: "0 < n div 2" by simp
    from "1.prems" have n0: "n \<noteq> 0" by simp
    from "1.IH" [OF n0 pos]
    have lo: "2 ^ (bit_length (n div 2) - 1) \<le> n div 2"
      and hi: "n div 2 < 2 ^ bit_length (n div 2)" by simp_all
    have bl: "bit_length n = Suc (bit_length (n div 2))"
      using n0 by (subst bit_length.simps) simp
    have blpos: "0 < bit_length (n div 2)"
      using pos by (subst bit_length.simps) simp
    then obtain c where c: "bit_length (n div 2) = Suc c" by (cases "bit_length (n div 2)") auto
    have "2 * 2 ^ c \<le> n" using lo c by simp
    moreover have "n < 2 * 2 ^ Suc c" using hi c by simp
    ultimately show ?thesis using bl c by simp
  qed
qed

lemma bit_length_le_iff: "bit_length n \<le> k \<longleftrightarrow> n < 2 ^ k"
proof (cases "n = 0")
  case True
  then show ?thesis by (simp add: bit_length.simps [of 0])
next
  case False
  then have pos: "0 < n" by simp
  note b = bit_length_bounds [OF pos]
  show ?thesis
  proof
    assume "bit_length n \<le> k"
    then have "(2::nat) ^ bit_length n \<le> 2 ^ k" by (simp add: power_increasing)
    with b show "n < 2 ^ k" by linarith
  next
    assume lt: "n < 2 ^ k"
    show "bit_length n \<le> k"
    proof (rule ccontr)
      assume "\<not> bit_length n \<le> k"
      then have "k \<le> bit_length n - 1" by simp
      then have "(2::nat) ^ k \<le> 2 ^ (bit_length n - 1)" by (simp add: power_increasing)
      with b lt show False by linarith
    qed
  qed
qed

lemma round_to_double_small: "n < 2 ^ 53 \<Longrightarrow> round_to_double n = n"
  using bit_length_le_iff [of n 53] by (simp add: round_to_double_def)

lemma round_to_double_big:
  assumes big: "53 < bit_length p"
  defines "h \<equiv> (2::nat) ^ (bit_length p - 53 - 1)"
  shows "\<exists>a. round_to_double p = a * (2 * h)"
    and "round_to_double p \<le> p + h"
    and "p \<le> round_to_double p + h"
    and "h * 2 ^ 53 \<le> p"
    and "p < 2 * h * 2 ^ 53"
proof -
  define s where "s = bit_length p - 53"
  define q where "q = p div 2 ^ s"
  define rest where "rest = p mod 2 ^ s"
  from big have s1: "1 \<le> s" by (simp add: s_def)
  then obtain s' where s': "s = Suc s'" by (cases s) auto
  have hs: "h = 2 ^ s'" by (simp add: h_def s_def [symmetric] s')
  have two_s: "(2::nat) ^ s = 2 * h" by (simp add: hs s')
  have p_eq: "p = q * (2 * h) + rest"
    unfolding q_def rest_def two_s [symmetric] by (rule div_mult_mod_eq [symmetric])
  have rest_lt: "rest < 2 * h"
    unfolding rest_def two_s [symmetric] by simp
  have nb: "\<not> bit_length p \<le> 53" using big by simp
  have hh: "h = 2 ^ (s - 1)" by (simp add: h_def s_def)
  have two_s': "2 * (2::nat) ^ (s - 1) = 2 ^ s" by (simp add: s')
  have "round_to_double p =
      (if 2 ^ (s - 1) < p mod 2 ^ s \<or> (p mod 2 ^ s = 2 ^ (s - 1) \<and> odd (p div 2 ^ s))
       then p div 2 ^ s + 1 else p div 2 ^ s) * 2 ^ s"
    using nb by (simp only: round_to_double_def Let_def s_def if_False)
  then have R: "round_to_double p = (if h < rest \<or> (rest = h \<and> odd q) then q + 1 else q) * (2 * h)"
    by (simp only: q_def rest_def hh two_s')
  show "\<exists>a. round_to_double p = a * (2 * h)" using R by blast
  show "round_to_double p \<le> p + h"
    using R p_eq rest_lt by (auto simp: algebra_simps)
  show "p \<le> round_to_double p + h"
    using R p_eq rest_lt by (auto simp: algebra_simps)
  from big have ppos: "0 < p" by (cases "p = 0") (simp_all add: bit_length.simps [of 0])
  have bl: "bit_length p = Suc (53 + s')" using big s' by (simp add: s_def)
  from bit_length_bounds [OF ppos] have "2 ^ (53 + s') \<le> p" "p < 2 ^ Suc (53 + s')"
    unfolding bl by simp_all
  then show "h * 2 ^ 53 \<le> p" "p < 2 * h * 2 ^ 53"
    unfolding hs power_add power_Suc by (simp_all add: mult.commute)
qed

lemma p95_index_eq:
  assumes n48: "n < 2 ^ 48"
  shows "p95_index n = 19 * n div 20"
proof -
  define P where "P = n * 8556839292003942"
  define k where "k = 19 * n div 20"
  define j where "j = 19 * n mod 20"
  define R where "R = round_to_double P"
  have T: "(2::nat) ^ 53 = 9007199254740992" by simp
  from n48 have nlt: "n < 281474976710656" by simp
  then have "n < 2 ^ 53" by simp
  then have rn: "round_to_double n = n" by (rule round_to_double_small)
  have idx: "p95_index n = R div 9007199254740992"
    by (simp add: p95_index_def rn P_def R_def)
  have kj: "19 * n = 20 * k + j" and j20: "j < 20"
    by (simp_all add: k_def j_def)
  have eq: "20 * P + 8 * n = 9007199254740992 * (20 * k + j)"
    using kj(1) by (simp add: P_def)
  have goal: "9007199254740992 * k \<le> R \<and> R < 9007199254740992 * Suc k"
  proof (cases "bit_length P \<le> 53")
    case True
    then have "P < 2 ^ 53" by (simp add: bit_length_le_iff)
    then have Plt: "P < 9007199254740992" by simp
    then have RP: "R = P" using True by (simp add: R_def round_to_double_def)
    from Plt have "n \<le> 1" by (simp add: P_def)
    then have "k = 0" by (simp add: k_def)
    with RP Plt show ?thesis by simp
  next
    case False
    then have big: "53 < bit_length P" by simp
    define h where "h = (2::nat) ^ (bit_length P - 53 - 1)"
    from round_to_double_big [OF big, folded h_def R_def]
    obtain a where a: "R = a * (2 * h)"
      and up: "R \<le> P + h" and lo: "P \<le> R + h"
      and hP: "h * 2 ^ 53 \<le> P" and Ph: "P < 2 * h * 2 ^ 53"
      by blast
    have hP': "9007199254740992 * h \<le> P" using hP by simp
    have Ph': "P < 18014398509481984 * h" using Ph by simp
    have "P < 2 ^ 101" using nlt by (simp add: P_def)
    then have "bit_length P \<le> 101" by (simp add: bit_length_le_iff)
    then have "Suc (bit_length P - 53 - 1) \<le> 53" by simp
    then have "(2::nat) ^ Suc (bit_length P - 53 - 1) dvd 2 ^ 53"
      by (rule le_imp_power_dvd)
    then have "2 * h dvd 9007199254740992" by (simp add: h_def)
    then obtain c where c: "9007199254740992 = 2 * h * c" by (auto simp: dvd_def)
    have h_n: "8 * n < 20 * h" using Ph' by (simp add: P_def)
    have n_h: "20 * h \<le> 19 * n" using hP' by (simp add: P_def)
    have "9007199254740992 * k < R + 2 * h"
      using eq h_n lo by simp
    then have "2 * h * (c * k) < 2 * h * Suc a"
      by (subst (asm) c) (simp add: a algebra_simps)
    then have "c * k < Suc a" unfolding mult_less_cancel1 by (rule conjunct2)
    then have "2 * h * (c * k) \<le> 2 * h * a" by simp
    then have low: "9007199254740992 * k \<le> R"
      by (subst c) (simp add: a algebra_simps)
    have "R < 9007199254740992 * Suc k"
      using eq j20 n_h up nlt by simp
    with low show ?thesis by simp
  qed
  then have "R div 9007199254740992 = k"
    by (intro div_nat_eqI) simp_all
  then show ?thesis by (simp add: idx k_def)
qed

lemma round_to_double_upper:
  "9007199254740992 * round_to_double p \<le> 9007199254740993 * p"
proof (cases "bit_length p \<le> 53")
  case True
  then show ?thesis by (simp add: round_to_double_def)
next
  case False
  then have big: "53 < bit_length p" by simp
  from round_to_double_big(2,4) [OF big]
  show ?thesis by simp
qed

lemma p95_index_less:
  assumes "0 < n"
  shows "p95_index n < n"
proof -
  define n' where "n' = round_to_double n"
  define R where "R = round_to_double (n' * 8556839292003942)"
  have 1: "9007199254740992 * n' \<le> 9007199254740993 * n"
    unfolding n'_def by (rule round_to_double_upper)
  have 2: "9007199254740992 * R \<le> 9007199254740993 * (n' * 8556839292003942)"
    unfolding R_def by (rule round_to_double_upper)
  from 1 2 assms have "R < 9007199254740992 * n" by simp
  then have "R div 9007199254740992 < n"
    by (simp add: less_mult_imp_div_less mult.commute)
  then show ?thesis by (simp add: p95_index_def n'_def R_def)
qed

lemma p95_index_floor:
  assumes "n < 2 ^ 48"
  shows "p95_index n = nat \<lfloor>(95 / 100 :: rat) * of_nat n\<rfloor>"
proof -
  have "(95 / 100 :: rat) * of_nat n = of_nat (19 * n) / of_nat 20" by simp
  then have "\<lfloor>(95 / 100 :: rat) * of_nat n\<rfloor> = int (19 * n div 20)"
    by (simp only: floor_divide_of_nat_eq)
  then show ?thesis by (simp add: p95_index_eq [OF assms])
qed


section \<open>Properties of the dataset analyzer\<close>

text \<open>What the function computes: without a \<open>messages\<close> column it raises at once. With
  one, it needs the value of \<^verbatim>\<open>os.cpu_count() // 2 or 1\<close>; given that, the two maps
  succeed and the \<open>text\<close> column exists, so the result hangs on the percentile lookup
  alone, which fails on the empty dataset and nowhere else.\<close>

lemma map_rows_Inr: "map_rows (\<lambda>x. Inr (g x)) xs = Inr (map g xs)"
  by (induction xs) simp_all

lemma map_rows_all_Inr:
  "(\<And>x. x \<in> set xs \<Longrightarrow> f x = Inr (g x)) \<Longrightarrow> map_rows f xs = Inr (map g xs)"
  by (induction xs) simp_all

lemma those_map_Some: "those (map (\<lambda>x. Some (g x)) xs) = Some (map g xs)"
  by (induction xs) simp_all

lemma in_add_column: "c \<in> set (add_column c cols)"
  by (simp add: add_column_def)

lemma token_lengths_eq:
  assumes "''messages'' \<in> set (column_names ds)"
  shows "token_lengths (Some (Some n)) ds tokenizer =
     Inr (annotated_dataset tokenizer ds, sort (map (token_length tokenizer) (rows ds)))"
proof -
  define ds1 where "ds1 = \<lparr>column_names = add_column ''text'' (column_names ds),
    rows = map (\<lambda>x. x\<lparr>text_col := Some (format_messages_to_text (messages x))\<rparr>) (rows ds)\<rparr>"
  have 0: "num_proc_value (Some (Some n)) = Inr (if n div 2 = 0 then 1 else n div 2)"
    by (simp add: num_proc_value_def)
  have 1: "dataset_map ''text''
      (\<lambda>x. Inr (x\<lparr>text_col := Some (format_messages_to_text (messages x))\<rparr>)) np ds = Inr ds1"
    for np
    by (simp add: dataset_map_def map_rows_Inr ds1_def)
  have 2: "''text'' \<in> set (column_names ds1)"
    by (simp add: ds1_def in_add_column)
  have "map_rows (\<lambda>x. (case text_col x of None \<Rightarrow> Inl KeyError
            | Some t \<Rightarrow> Inr (x\<lparr>length_col := Some (length (tokenizer t))\<rparr>))) (rows ds1)
        = Inr (map (\<lambda>x. x\<lparr>length_col := Some (length (tokenizer (the (text_col x))))\<rparr>) (rows ds1))"
    by (rule map_rows_all_Inr) (auto simp: ds1_def)
  also have "map (\<lambda>x. x\<lparr>length_col := Some (length (tokenizer (the (text_col x))))\<rparr>) (rows ds1)
      = map (annotate tokenizer) (rows ds)"
    by (simp add: ds1_def annotate_def token_length_def o_def)
  finally have 3: "dataset_map ''length''
      (\<lambda>x. (case text_col x of None \<Rightarrow> Inl KeyError
            | Some t \<Rightarrow> Inr (x\<lparr>length_col := Some (length (tokenizer t))\<rparr>))) np ds1
        = Inr (annotated_dataset tokenizer ds)" for np
    by (simp add: dataset_map_def ds1_def annotated_dataset_def)
  have 4: "column_length (annotated_dataset tokenizer ds) = Inr (map (token_length tokenizer) (rows ds))"
    by (simp add: column_length_def annotated_dataset_def in_add_column annotate_def o_def
        those_map_Some)
  show ?thesis
    using assms 2 by (simp add: token_lengths_def 0 1 3 4)
qed

lemma analyze_missing:
  "''messages'' \<notin> set (column_names ds) \<Longrightarrow>
   analyze_dataset_and_configure os_cpu_count ds tokenizer max_length vram_gb =
     Inl MissingMessagesColumn"
  by (simp add: analyze_dataset_and_configure_def token_lengths_def)

lemma analyze_unbound_os:
  "''messages'' \<in> set (column_names ds) \<Longrightarrow>
   analyze_dataset_and_configure None ds tokenizer max_length vram_gb = Inl NameError"
  by (simp add: analyze_dataset_and_configure_def token_lengths_def num_proc_value_def)

lemma analyze_no_cpu_count:
  "''messages'' \<in> set (column_names ds) \<Longrightarrow>
   analyze_dataset_and_configure (Some None) ds tokenizer max_length vram_gb = Inl TypeError"
  by (simp add: analyze_dataset_and_configure_def token_lengths_def num_proc_value_def)

lemma analyze_empty:
  "''messages'' \<in> set (column_names ds) \<Longrightarrow> rows ds = [] \<Longrightarrow>
   analyze_dataset_and_configure (Some (Some n)) ds tokenizer max_length vram_gb = Inl IndexError"
  by (simp add: analyze_dataset_and_configure_def token_lengths_eq list_get_def)

lemma analyze_returns:
  assumes "''messages'' \<in> set (column_names ds)" and "rows ds \<noteq> []"
  shows "analyze_dataset_and_configure (Some (Some n)) ds tokenizer max_length vram_gb =
     Inr (annotated_dataset tokenizer ds,
          configure max_length vram_gb (p95_length_of ds tokenizer))"
proof -
  from assms(2) have "p95_index (length (rows ds)) < length (rows ds)"
    by (intro p95_index_less) simp
  then show ?thesis
    using assms(1)
    by (simp add: analyze_dataset_and_configure_def token_lengths_eq list_get_def p95_length_of_def)
qed

lemma config_of_analyze:
  assumes "config_of (analyze_dataset_and_configure os_cpu_count ds tokenizer max_length vram_gb)
      = Some cfg"
  shows "(\<exists>n. os_cpu_count = Some (Some n)) \<and>
         ''messages'' \<in> set (column_names ds) \<and> rows ds \<noteq> [] \<and>
         cfg = configure max_length vram_gb (p95_length_of ds tokenizer)"
proof -
  have m: "''messages'' \<in> set (column_names ds)"
    using assms by (cases "''messages'' \<in> set (column_names ds)")
      (simp_all add: analyze_missing config_of_def)
  obtain n where n: "os_cpu_count = Some (Some n)"
    using assms m by (cases os_cpu_count; cases "the os_cpu_count")
      (simp_all add: analyze_unbound_os analyze_no_cpu_count config_of_def)
  have r: "rows ds \<noteq> []"
    using assms m by (cases "rows ds = []") (simp_all add: n analyze_empty config_of_def)
  from assms show ?thesis using m r n by (simp add: analyze_returns [OF m r] config_of_def)
qed

lemma configure_max_seq_length:
  "max_seq_length (configure max_length vram_gb p95) =
     (let v = max (min max_length (int p95 + 256)) 512
      in if 16 \<le> vram_gb \<and> 4096 < v then min v 8192 else v)"
  by (simp add: configure_def determine_max_seq_length_def Let_def)

lemma sort_replicate_snoc:
  "a \<le> b \<Longrightarrow> sort (replicate n a @ [b]) = replicate n (a::nat) @ [b]"
  by (intro sorted_sort_id) (auto simp: sorted_append)

lemma conversations_simps:
  "column_names (conversations n) = [''messages'']"
  "rows (conversations n) = replicate n greeting_row"
  by (simp_all add: conversations_def)

lemma token_length_const: "token_length (const_tokenizer k) x = k"
  by (simp add: token_length_def const_tokenizer_def)

lemma p95_length_of_const:
  assumes "0 < n"
  shows "p95_length_of (conversations n) (const_tokenizer k) = k"
proof -
  have "sort (replicate n k) = replicate n k"
    by (intro sorted_sort_id) (simp add: sorted_replicate)
  with p95_index_less [OF assms] show ?thesis
    by (simp add: p95_length_of_def conversations_simps token_length_const)
qed

lemma analyze_const:
  "0 < n \<Longrightarrow>
   analyze_dataset_and_configure (Some (Some c)) (conversations n) (const_tokenizer k)
     max_length vram_gb =
     Inr (annotated_dataset (const_tokenizer k) (conversations n), configure max_length vram_gb k)"
  by (simp add: analyze_returns conversations_simps p95_length_of_const)

lemma mixed_lengths:
  "map (token_length two_length_tokenizer) (rows mixed_conversations) = replicate 94 100 @ [5000]"
  by (simp add: mixed_conversations_def token_length_def two_length_tokenizer_def
      silent_row_def greeting_row_def format_messages_to_text_def format_message_def dict_get_def)

text \<open>
  Claim C1, amended. Whenever the analyzer returns, the training dataset has at least
  one record, the token lengths of the records were sorted ascending and
  \<open>p95 = lengths[int(N * 0.95)]\<close> was taken, which is \<open>lengths[floor(0.95 * N)]\<close> for
  every \<open>N\<close> below \<open>2^48\<close>. With \<open>v = max(min(max_length, p95 + 256), 512)\<close>, which is the
  specification's clamp whenever \<open>max_length\<close> is at least 512, the \<open>max_seq_length\<close>
  returned is \<open>v\<close>, capped at 8192 when the accelerator memory is at least 16 GB and
  \<open>v\<close> exceeds 4096. For the lengths \<open>[100]*94 + [5000]\<close> and \<open>max_length = 32768\<close> the
  result is 512.
\<close>

theorem analyze_max_seq_length:
  assumes res: "config_of (analyze_dataset_and_configure os_cpu_count ds tokenizer max_length vram_gb)
      = Some cfg"
    and ls: "ls = map (token_length tokenizer) (rows ds)"
    and p95: "p95 = sort ls ! p95_index (length ls)"
    and v: "v = max (min max_length (int p95 + 256)) 512"
  shows
   "rows ds \<noteq> [] \<and>
    max_seq_length cfg = (if 16 \<le> vram_gb \<and> 4096 < v then min v 8192 else v) \<and>
    (length ls < 2 ^ 48 \<longrightarrow> p95 = spec_p95 ls) \<and>
    (512 \<le> max_length \<longrightarrow> v = spec_max_seq_length max_length p95) \<and>
    (ls = replicate 94 100 @ [5000] \<and> max_length = 32768 \<longrightarrow> max_seq_length cfg = 512)"
proof -
  have pl: "p95_length_of ds tokenizer = p95"
    by (simp add: p95_length_of_def p95 ls)
  from config_of_analyze [OF res]
  have 0: "rows ds \<noteq> []" and cfg: "cfg = configure max_length vram_gb p95"
    by (simp_all add: pl)
  have 1: "max_seq_length cfg = (if 16 \<le> vram_gb \<and> 4096 < v then min v 8192 else v)"
    by (simp add: cfg configure_max_seq_length v Let_def)
  have 2: "length ls < 2 ^ 48 \<longrightarrow> p95 = spec_p95 ls"
    by (simp add: p95 spec_p95_def p95_index_floor)
  have 3: "512 \<le> max_length \<longrightarrow> v = spec_max_seq_length max_length p95"
    unfolding v spec_max_seq_length_def spec_clamp_def by linarith
  have 4: "max_seq_length cfg = 512"
    if l: "ls = replicate 94 100 @ [5000]" and m: "max_length = 32768"
  proof -
    have "length ls = 95" by (simp add: l)
    moreover have "p95_index 95 = 19 * 95 div 20" by (rule p95_index_eq) simp
    ultimately have i: "p95_index (length ls) = 90" by simp
    have "sort ls = ls" unfolding l by (rule sort_replicate_snoc) simp
    then have "p95 = 100" by (simp add: p95 i) (simp add: l nth_append)
    then have "v = 512" by (simp add: v m)
    with 1 show ?thesis by simp
  qed
  from 0 1 2 3 4 show ?thesis by blast
qed

text \<open>The theorem at a dataset of 95 records whose token lengths are
  \<open>[100]*94 + [5000]\<close>, in a namespace where \<open>os\<close> is bound and reports four
  processors.\<close>

theorem analyze_max_seq_length_witness:
  "config_of (analyze_dataset_and_configure (Some (Some 4)) mixed_conversations
       two_length_tokenizer 32768 16) =
     Some (configure 32768 16 (p95_length_of mixed_conversations two_length_tokenizer)) \<and>
   map (token_length two_length_tokenizer) (rows mixed_conversations) = replicate 94 100 @ [5000] \<and>
   length (replicate 94 (100::nat) @ [5000]) < 2 ^ 48 \<and>
   sort (replicate 94 100 @ [5000]) ! p95_index (length (replicate 94 (100::nat) @ [5000])) =
     spec_p95 (replicate 94 100 @ [5000]) \<and>
   max_seq_length (configure 32768 16 (p95_length_of mixed_conversations two_length_tokenizer)) = 512"
proof -
  have c: "''messages'' \<in> set (column_names mixed_conversations)"
    by (simp add: mixed_conversations_def)
  have n: "rows mixed_conversations \<noteq> []"
    by (simp add: mixed_conversations_def)
  have r: "config_of (analyze_dataset_and_configure (Some (Some 4)) mixed_conversations
       two_length_tokenizer 32768 16) =
     Some (configure 32768 16 (p95_length_of mixed_conversations two_length_tokenizer))"
    by (simp add: analyze_returns [OF c n] config_of_def)
  have l: "length (replicate 94 (100::nat) @ [5000]) < 2 ^ 48" by simp
  note t = analyze_max_seq_length [OF r mixed_lengths [symmetric] refl refl]
  from t r l mixed_lengths show ?thesis by blast
qed

text \<open>
  Claim C1 as stated fails. With \<open>os\<close> bound, one record of 10000 tokens,
  \<open>max_length = 32768\<close> and 16 GB give \<open>max_seq_length = 8192\<close>, where the clamp of the
  claim is 10256. In the module as it is written the same call returns nothing: it
  stops with a \<open>NameError\<close>.
\<close>

theorem max_seq_length_capped_counterexample:
  "map_option max_seq_length
     (config_of (analyze_dataset_and_configure (Some (Some 4)) (conversations 1)
        (const_tokenizer 10000) 32768 16)) = Some 8192 \<and>
   spec_p95 [10000] = 10000 \<and>
   spec_max_seq_length 32768 10000 = 10256 \<and>
   analyze_dataset_and_configure module_os (conversations 1) (const_tokenizer 10000) 32768 16 =
     Inl NameError"
  by (simp add: analyze_const config_of_def configure_max_seq_length spec_p95_def
      spec_max_seq_length_def spec_clamp_def module_os_def analyze_unbound_os conversations_simps)

text \<open>
  Claim C2, amended. The \<open>max_seq_length\<close> of a returned configuration never exceeds the
  larger of \<open>max_length\<close> and the floor 512; whenever \<open>max_length\<close> is at least 512 it
  never exceeds \<open>max_length\<close>.
\<close>

theorem max_seq_length_bound:
  assumes "config_of (analyze_dataset_and_configure os_cpu_count ds tokenizer max_length vram_gb)
      = Some cfg"
  shows "max_seq_length cfg \<le> max max_length 512 \<and>
         (512 \<le> max_length \<longrightarrow> max_seq_length cfg \<le> max_length)"
proof -
  from config_of_analyze [OF assms]
  have "cfg = configure max_length vram_gb (p95_length_of ds tokenizer)" by simp
  then have "max_seq_length cfg \<le> max (min max_length (int (p95_length_of ds tokenizer) + 256)) 512"
    by (simp add: configure_max_seq_length Let_def)
  then show ?thesis by linarith
qed

theorem max_seq_length_bound_witness:
  "config_of (analyze_dataset_and_configure (Some (Some 4)) (conversations 3)
       (const_tokenizer 300) 1024 16) = Some (configure 1024 16 300) \<and>
   (512::int) \<le> 1024 \<and>
   max_seq_length (configure 1024 16 300) \<le> max 1024 512 \<and>
   max_seq_length (configure 1024 16 300) \<le> 1024 \<and>
   max_seq_length (configure 1024 16 300) = 556"
proof -
  have h: "config_of (analyze_dataset_and_configure (Some (Some 4)) (conversations 3)
       (const_tokenizer 300) 1024 16) = Some (configure 1024 16 300)"
    by (simp add: analyze_const config_of_def)
  have a: "(512::int) \<le> 1024" by simp
  have v: "max_seq_length (configure 1024 16 300) = 556"
    by (simp add: configure_max_seq_length)
  from max_seq_length_bound [OF h] h a v show ?thesis by blast
qed

text \<open>
  Claim C2 as stated fails: with \<open>max_length = 256\<close> the floor applies last and the
  analyzer returns \<open>max_seq_length = 512\<close>.
\<close>

theorem max_seq_length_floor_counterexample:
  "map_option max_seq_length
     (config_of (analyze_dataset_and_configure (Some (Some 4)) (conversations 1)
        (const_tokenizer 10) 256 16)) = Some 512 \<and>
   \<not> (512::int) \<le> 256"
  by (simp add: analyze_const config_of_def configure_max_seq_length)

lemma configure_fields:
  "per_device_train_batch_size (configure max_length vram_gb p95) =
     (if 16 \<le> vram_gb \<and> determine_max_seq_length max_length p95 \<le> 1024 then 2 else 1)"
  "gradient_accumulation_steps (configure max_length vram_gb p95) =
     (if 16 \<le> vram_gb then
        (if determine_max_seq_length max_length p95 \<le> 1024 then 8
         else if determine_max_seq_length max_length p95 \<le> 2048 then 16
         else if determine_max_seq_length max_length p95 \<le> 4096 then 32 else 64)
      else 16)"
  "effective_batch_size (configure max_length vram_gb p95) =
     per_device_train_batch_size (configure max_length vram_gb p95) *
     gradient_accumulation_steps (configure max_length vram_gb p95)"
  "use_gradient_checkpointing (configure max_length vram_gb p95)"
  by (simp_all add: configure_def Let_def)

lemma configure_max_seq_length':
  "max_seq_length (configure max_length vram_gb p95) =
     (if 16 \<le> vram_gb \<and> 4096 < determine_max_seq_length max_length p95
      then min (determine_max_seq_length max_length p95) 8192
      else determine_max_seq_length max_length p95)"
  by (simp add: configure_def Let_def)

text \<open>
  Claim C3. Let \<open>v\<close> be the sequence length determined from the percentile. With
  accelerator memory of at least 16 GB the batch size and the gradient accumulation steps
  are (2, 8) for \<open>v \<le> 1024\<close>, (1, 16) for \<open>v \<le> 2048\<close>, (1, 32) for \<open>v \<le> 4096\<close> and
  (1, 64) otherwise, where \<open>max_seq_length\<close> is moreover capped at 8192; below 16 GB
  they are (1, 16). In every case \<open>effective_batch_size\<close> is their product and
  \<open>use_gradient_checkpointing\<close> is true.
\<close>

theorem batch_tiering:
  assumes res: "config_of (analyze_dataset_and_configure os_cpu_count ds tokenizer max_length vram_gb)
      = Some cfg"
    and v: "v = determine_max_seq_length max_length (p95_length_of ds tokenizer)"
  shows
   "(16 \<le> vram_gb \<and> v \<le> 1024 \<longrightarrow>
       per_device_train_batch_size cfg = 2 \<and> gradient_accumulation_steps cfg = 8 \<and>
       max_seq_length cfg = v) \<and>
    (16 \<le> vram_gb \<and> 1024 < v \<and> v \<le> 2048 \<longrightarrow>
       per_device_train_batch_size cfg = 1 \<and> gradient_accumulation_steps cfg = 16 \<and>
       max_seq_length cfg = v) \<and>
    (16 \<le> vram_gb \<and> 2048 < v \<and> v \<le> 4096 \<longrightarrow>
       per_device_train_batch_size cfg = 1 \<and> gradient_accumulation_steps cfg = 32 \<and>
       max_seq_length cfg = v) \<and>
    (16 \<le> vram_gb \<and> 4096 < v \<longrightarrow>
       per_device_train_batch_size cfg = 1 \<and> gradient_accumulation_steps cfg = 64 \<and>
       max_seq_length cfg = min v 8192) \<and>
    (vram_gb < 16 \<longrightarrow>
       per_device_train_batch_size cfg = 1 \<and> gradient_accumulation_steps cfg = 16 \<and>
       max_seq_length cfg = v) \<and>
    effective_batch_size cfg = per_device_train_batch_size cfg * gradient_accumulation_steps cfg \<and>
    use_gradient_checkpointing cfg"
proof -
  from config_of_analyze [OF res]
  have cfg: "cfg = configure max_length vram_gb (p95_length_of ds tokenizer)" by simp
  show ?thesis
    unfolding cfg v
    by (simp add: configure_fields configure_max_seq_length')
qed

text \<open>The four buckets at 16 GB (sequence lengths 900, 1500, 3000 and 10000) and the
  default at 8 GB.\<close>

theorem batch_tiering_witness:
  "(config_of (analyze_dataset_and_configure (Some (Some 4)) (conversations 4)
        (const_tokenizer 644) 32768 16) = Some (configure 32768 16 644) \<and>
    determine_max_seq_length 32768 (p95_length_of (conversations 4) (const_tokenizer 644)) = 900 \<and>
    per_device_train_batch_size (configure 32768 16 644) = 2 \<and>
    gradient_accumulation_steps (configure 32768 16 644) = 8 \<and>
    effective_batch_size (configure 32768 16 644) = 16 \<and>
    max_seq_length (configure 32768 16 644) = 900) \<and>
   (config_of (analyze_dataset_and_configure (Some (Some 4)) (conversations 4)
        (const_tokenizer 1244) 32768 16) = Some (configure 32768 16 1244) \<and>
    determine_max_seq_length 32768 (p95_length_of (conversations 4) (const_tokenizer 1244)) = 1500 \<and>
    per_device_train_batch_size (configure 32768 16 1244) = 1 \<and>
    gradient_accumulation_steps (configure 32768 16 1244) = 16 \<and>
    max_seq_length (configure 32768 16 1244) = 1500) \<and>
   (config_of (analyze_dataset_and_configure (Some (Some 4)) (conversations 4)
        (const_tokenizer 2744) 32768 16) = Some (configure 32768 16 2744) \<and>
    determine_max_seq_length 32768 (p95_length_of (conversations 4) (const_tokenizer 2744)) = 3000 \<and>
    per_device_train_batch_size (configure 32768 16 2744) = 1 \<and>
    gradient_accumulation_steps (configure 32768 16 2744) = 32 \<and>
    effective_batch_size (configure 32768 16 2744) = 32 \<and>
    max_seq_length (configure 32768 16 2744) = 3000) \<and>
   (config_of (analyze_dataset_and_configure (Some (Some 4)) (conversations 4)
        (const_tokenizer 9744) 32768 16) = Some (configure 32768 16 9744) \<and>
    determine_max_seq_length 32768 (p95_length_of (conversations 4) (const_tokenizer 9744)) = 10000 \<and>
    per_device_train_batch_size (configure 32768 16 9744) = 1 \<and>
    gradient_accumulation_steps (configure 32768 16 9744) = 64 \<and>
    effective_batch_size (configure 32768 16 9744) = 64 \<and>
    max_seq_length (configure 32768 16 9744) = 8192) \<and>
   (config_of (analyze_dataset_and_configure (Some (Some 4)) (conversations 4)
        (const_tokenizer 644) 32768 8) = Some (configure 32768 8 644) \<and>
    per_device_train_batch_size (configure 32768 8 644) = 1 \<and>
    gradient_accumulation_steps (configure 32768 8 644) = 16 \<and>
    max_seq_length (configure 32768 8 644) = 900)"
proof -
  have r: "config_of (analyze_dataset_and_configure (Some (Some 4)) (conversations 4)
      (const_tokenizer k) m g) = Some (configure m g k)" for k m g
    by (simp add: analyze_const config_of_def)
  have d: "determine_max_seq_length 32768 (p95_length_of (conversations 4) (const_tokenizer 644)) = 900"
    "determine_max_seq_length 32768 (p95_length_of (conversations 4) (const_tokenizer 1244)) = 1500"
    "determine_max_seq_length 32768 (p95_length_of (conversations 4) (const_tokenizer 2744)) = 3000"
    "determine_max_seq_length 32768 (p95_length_of (conversations 4) (const_tokenizer 9744)) = 10000"
    by (simp_all add: p95_length_of_const determine_max_seq_length_def)
  have 1: "per_device_train_batch_size (configure 32768 16 644) = 2 \<and>
      gradient_accumulation_steps (configure 32768 16 644) = 8 \<and>
      effective_batch_size (configure 32768 16 644) = 16 \<and>
      max_seq_length (configure 32768 16 644) = 900"
    using batch_tiering [OF r d(1) [symmetric]] by simp
  have 2: "per_device_train_batch_size (configure 32768 16 1244) = 1 \<and>
      gradient_accumulation_steps (configure 32768 16 1244) = 16 \<and>
      max_seq_length (configure 32768 16 1244) = 1500"
    using batch_tiering [OF r d(2) [symmetric]] by simp
  have 3: "per_device_train_batch_size (configure 32768 16 2744) = 1 \<and>
      gradient_accumulation_steps (configure 32768 16 2744) = 32 \<and>
      effective_batch_size (configure 32768 16 2744) = 32 \<and>
      max_seq_length (configure 32768 16 2744) = 3000"
    using batch_tiering [OF r d(3) [symmetric]] by simp
  have 4: "per_device_train_batch_size (configure 32768 16 9744) = 1 \<and>
      gradient_accumulation_steps (configure 32768 16 9744) = 64 \<and>
      effective_batch_size (configure 32768 16 9744) = 64 \<and>
      max_seq_length (configure 32768 16 9744) = 8192"
    using batch_tiering [OF r d(4) [symmetric]] by simp
  have 5: "per_device_train_batch_size (configure 32768 8 644) = 1 \<and>
      gradient_accumulation_steps (configure 32768 8 644) = 16 \<and>
      max_seq_length (configure 32768 8 644) = 900"
    using batch_tiering [OF r d(1) [symmetric], of 8] by simp
  from r d 1 2 3 4 5 show ?thesis by blast
qed

text \<open>What holds of the failures of the analyzer in every namespace: the
  missing-\<open>messages\<close> error is raised exactly for a dataset without that column, and the
  defensive check on the \<open>text\<close> column never fires, \<open>dataset_map\<close> always creating the
  column. With \<open>os\<close> bound and a processor count known, a dataset with the column and
  at least one record is analyzed to the end (\<open>analyze_returns\<close>).\<close>

lemma analyze_failure_modes:
  "(analyze_dataset_and_configure os_cpu_count ds tokenizer max_length vram_gb =
      Inl MissingMessagesColumn \<longleftrightarrow> ''messages'' \<notin> set (column_names ds)) \<and>
   analyze_dataset_and_configure os_cpu_count ds tokenizer max_length vram_gb \<noteq>
     Inl TextColumnNotCreated"
proof (cases "''messages'' \<in> set (column_names ds)")
  case False
  then show ?thesis by (simp add: analyze_missing)
next
  case m: True
  show ?thesis
  proof (cases os_cpu_count)
    case None
    with m show ?thesis by (simp add: analyze_unbound_os)
  next
    case (Some c)
    show ?thesis
    proof (cases c)
      case None
      with m Some show ?thesis by (simp add: analyze_no_cpu_count)
    next
      case (Some n)
      with m \<open>os_cpu_count = Some c\<close> show ?thesis
        by (cases "rows ds = []") (simp_all add: analyze_empty analyze_returns)
    qed
  qed
qed

text \<open>
  Claim C10. The claim has a dataset without a \<open>messages\<close> column fail with the
  missing-field error, and a dataset with the column analyzed to a normal return. The
  module as it is written does the first and never the second: the first
  \<^verbatim>\<open>dataset.map\<close> call evaluates \<^verbatim>\<open>os.cpu_count()\<close>, the module binds no name \<open>os\<close>, and
  the call stops with a \<open>NameError\<close>, here on a dataset of one record.
\<close>

theorem analyze_name_error:
  "''messages'' \<notin> set (column_names text_only) \<and>
   analyze_dataset_and_configure module_os text_only (const_tokenizer 3) 1024 16 =
     Inl MissingMessagesColumn \<and>
   ''messages'' \<in> set (column_names (conversations 1)) \<and>
   rows (conversations 1) \<noteq> [] \<and>
   analyze_dataset_and_configure module_os (conversations 1) (const_tokenizer 3) 1024 16 =
     Inl NameError"
  by (simp add: module_os_def analyze_unbound_os analyze_missing conversations_simps text_only_def)


section \<open>Properties of the dataset partitioner\<close>

lemma rows_select_rows: "rows (select_rows ds I) = map (\<lambda>i. rows ds ! i) I"
  by (simp add: select_rows_def)

lemma train_test_split_Inr:
  "train_test_split sp ds f s = Inr (a, b) \<longleftrightarrow>
     (\<exists>I J. sp (length (rows ds)) f s = Inr (I, J) \<and>
            list_all (\<lambda>i. i < length (rows ds)) (I @ J) \<and>
            a = select_rows ds I \<and> b = select_rows ds J)"
  by (auto simp: train_test_split_def split: sum.splits prod.splits if_splits)

lemma select_rows_twice:
  assumes "list_all (\<lambda>k. k < length I) K"
  shows "select_rows (select_rows ds I) K = select_rows ds (map (\<lambda>k. I ! k) K)"
  using assms by (simp add: select_rows_def list_all_iff)

lemma split_dataset_Inr:
  "split_dataset sp ds a b c seed = Inr (train, val, test) \<longleftrightarrow>
     \<bar>a + b + c - 1\<bar> < 1 / 1000000 \<and> a + b \<noteq> 0 \<and> rows ds \<noteq> [] \<and>
     (\<exists>tv. train_test_split sp ds c seed = Inr (tv, test) \<and>
           train_test_split sp tv (b / (a + b)) seed = Inr (train, val))"
  by (auto simp: split_dataset_def Let_def split: sum.splits prod.splits if_splits)

lemma split_dataset_indices:
  assumes res: "split_dataset sp ds a b c seed = Inr (train, val, test)"
  shows "\<exists>I_tv I_te K_tr K_va.
      sp (length (rows ds)) c seed = Inr (I_tv, I_te) \<and>
      list_all (\<lambda>i. i < length (rows ds)) (I_tv @ I_te) \<and>
      sp (length I_tv) (b / (a + b)) seed = Inr (K_tr, K_va) \<and>
      list_all (\<lambda>k. k < length I_tv) (K_tr @ K_va) \<and>
      train = select_rows ds (map (\<lambda>k. I_tv ! k) K_tr) \<and>
      val = select_rows ds (map (\<lambda>k. I_tv ! k) K_va) \<and>
      test = select_rows ds I_te"
proof -
  from res obtain tv where 1: "train_test_split sp ds c seed = Inr (tv, test)"
    and 2: "train_test_split sp tv (b / (a + b)) seed = Inr (train, val)"
    unfolding split_dataset_Inr by blast
  from 1 obtain I_tv I_te where s1: "sp (length (rows ds)) c seed = Inr (I_tv, I_te)"
    and r1: "list_all (\<lambda>i. i < length (rows ds)) (I_tv @ I_te)"
    and tv: "tv = select_rows ds I_tv" and te: "test = select_rows ds I_te"
    unfolding train_test_split_Inr by blast
  have ltv: "length (rows tv) = length I_tv" by (simp add: tv rows_select_rows)
  from 2 obtain K_tr K_va where s2: "sp (length I_tv) (b / (a + b)) seed = Inr (K_tr, K_va)"
    and r2: "list_all (\<lambda>k. k < length I_tv) (K_tr @ K_va)"
    and tr: "train = select_rows tv K_tr" and va: "val = select_rows tv K_va"
    unfolding train_test_split_Inr ltv by blast
  from r2 have "train = select_rows ds (map (\<lambda>k. I_tv ! k) K_tr)"
    "val = select_rows ds (map (\<lambda>k. I_tv ! k) K_va)"
    by (simp_all add: tr va tv select_rows_twice)
  with s1 r1 s2 r2 te show ?thesis by blast
qed

lemma split_dataset_from_indices:
  assumes "\<bar>a + b + c - 1\<bar> < 1 / 1000000" and "a + b \<noteq> 0" and "rows ds \<noteq> []"
    and s1: "sp (length (rows ds)) c seed = Inr (I_tv, I_te)"
    and r1: "list_all (\<lambda>i. i < length (rows ds)) (I_tv @ I_te)"
    and s2: "sp (length I_tv) (b / (a + b)) seed = Inr (K_tr, K_va)"
    and r2: "list_all (\<lambda>k. k < length I_tv) (K_tr @ K_va)"
  shows "split_dataset sp ds a b c seed =
     Inr (select_rows ds (map (\<lambda>k. I_tv ! k) K_tr),
          select_rows ds (map (\<lambda>k. I_tv ! k) K_va), select_rows ds I_te)"
proof -
  have 1: "train_test_split sp ds c seed = Inr (select_rows ds I_tv, select_rows ds I_te)"
    unfolding train_test_split_Inr using s1 r1 by blast
  have "train_test_split sp (select_rows ds I_tv) (b / (a + b)) seed =
      Inr (select_rows (select_rows ds I_tv) K_tr, select_rows (select_rows ds I_tv) K_va)"
    unfolding train_test_split_Inr using s2 r2 by (simp add: rows_select_rows)
  with r2 have 2: "train_test_split sp (select_rows ds I_tv) (b / (a + b)) seed =
      Inr (select_rows ds (map (\<lambda>k. I_tv ! k) K_tr), select_rows ds (map (\<lambda>k. I_tv ! k) K_va))"
    by (simp add: select_rows_twice)
  show ?thesis
    unfolding split_dataset_Inr using assms(1-3) 1 2 by blast
qed

lemma partition_compose:
  assumes d1: "distinct (I_tv @ I_te)" and s1: "set (I_tv @ I_te) = {..<n}"
    and d2: "distinct (K_tr @ K_va)" and s2: "set (K_tr @ K_va) = {..<length I_tv}"
  shows "distinct (map (\<lambda>k. I_tv ! k) K_tr @ map (\<lambda>k. I_tv ! k) K_va @ I_te)"
    and "set (map (\<lambda>k. I_tv ! k) K_tr) \<union> set (map (\<lambda>k. I_tv ! k) K_va) \<union> set I_te = {..<n}"
proof -
  from d1 have dtv: "distinct I_tv" by simp
  have inj: "inj_on (\<lambda>k. I_tv ! k) (set (K_tr @ K_va))"
    unfolding s2 using dtv by (auto simp: inj_on_def nth_eq_iff_index_eq)
  have A: "distinct (map (\<lambda>k. I_tv ! k) (K_tr @ K_va))"
    using d2 inj by (simp only: distinct_map)
  have img: "set (map (\<lambda>k. I_tv ! k) (K_tr @ K_va)) = set I_tv"
    unfolding set_map s2 by (auto simp: set_conv_nth)
  from d1 have B: "distinct I_te" and C: "set I_tv \<inter> set I_te = {}" by simp_all
  have "distinct (map (\<lambda>k. I_tv ! k) (K_tr @ K_va) @ I_te)"
    unfolding distinct_append img using A B C by blast
  then show "distinct (map (\<lambda>k. I_tv ! k) K_tr @ map (\<lambda>k. I_tv ! k) K_va @ I_te)"
    by (simp only: map_append append_assoc)
  from img s1 show
    "set (map (\<lambda>k. I_tv ! k) K_tr) \<union> set (map (\<lambda>k. I_tv ! k) K_va) \<union> set I_te = {..<n}"
    by (simp only: map_append set_append) 
qed


lemma simple_splitter_partitions: "splitter_partitions simple_splitter"
proof -
  have "distinct (take k p @ drop k p) \<and> set (take k p @ drop k p) = {..<n}"
    if "p = [0..<n] \<or> p = rev [0..<n]" for k n and p :: "nat list"
    using that by (auto simp: atLeast0LessThan)
  then show ?thesis
    unfolding splitter_partitions_def simple_splitter_def Let_def
    by (auto split: if_splits simp del: append_take_drop_id)
qed


text \<open>
  Claim C4, amended. Let the library's binary split return, whenever it returns, a
  partition of the positions of its input. Then whenever the partitioner returns, its
  three parts are selections of the dataset by three position lists that are pairwise
  disjoint and together are exactly the positions of the dataset, so the three sizes
  sum to the size of the dataset; and the position lists depend on the size, the ratios
  and the seed alone, so running the partitioner again on the same arguments (or on any
  dataset of that size) gives the same assignment.
\<close>

theorem split_partition:
  assumes sp: "splitter_partitions sp"
    and res: "split_dataset sp ds train_ratio val_ratio test_ratio seed = Inr (train, val, test)"
  shows "\<exists>I_train I_val I_test.
      train = select_rows ds I_train \<and> val = select_rows ds I_val \<and>
      test = select_rows ds I_test \<and>
      distinct (I_train @ I_val @ I_test) \<and>
      set I_train \<inter> set I_val = {} \<and> set I_train \<inter> set I_test = {} \<and>
      set I_val \<inter> set I_test = {} \<and>
      set I_train \<union> set I_val \<union> set I_test = {..<length (rows ds)} \<and>
      length (rows train) + length (rows val) + length (rows test) = length (rows ds) \<and>
      (\<forall>ds'. length (rows ds') = length (rows ds) \<longrightarrow>
         split_dataset sp ds' train_ratio val_ratio test_ratio seed =
           Inr (select_rows ds' I_train, select_rows ds' I_val, select_rows ds' I_test))"
proof -
  from split_dataset_indices [OF res]
  obtain I_tv I_te K_tr K_va where
    s1: "sp (length (rows ds)) test_ratio seed = Inr (I_tv, I_te)"
    and r1: "list_all (\<lambda>i. i < length (rows ds)) (I_tv @ I_te)"
    and s2: "sp (length I_tv) (val_ratio / (train_ratio + val_ratio)) seed = Inr (K_tr, K_va)"
    and r2: "list_all (\<lambda>k. k < length I_tv) (K_tr @ K_va)"
    and tr: "train = select_rows ds (map (\<lambda>k. I_tv ! k) K_tr)"
    and va: "val = select_rows ds (map (\<lambda>k. I_tv ! k) K_va)"
    and te: "test = select_rows ds I_te"
    by blast
  define I_train where "I_train = map (\<lambda>k. I_tv ! k) K_tr"
  define I_val where "I_val = map (\<lambda>k. I_tv ! k) K_va"
  from sp s1 have p1: "distinct (I_tv @ I_te)" "set (I_tv @ I_te) = {..<length (rows ds)}"
    unfolding splitter_partitions_def by blast+
  from sp s2 have p2: "distinct (K_tr @ K_va)" "set (K_tr @ K_va) = {..<length I_tv}"
    unfolding splitter_partitions_def by blast+
  from partition_compose [OF p1 p2]
  have d: "distinct (I_train @ I_val @ I_te)"
    and u: "set I_train \<union> set I_val \<union> set I_te = {..<length (rows ds)}"
    by (simp_all only: I_train_def I_val_def)
  from d have disj: "set I_train \<inter> set I_val = {}" "set I_train \<inter> set I_te = {}"
    "set I_val \<inter> set I_te = {}"
    by auto
  have "length (I_train @ I_val @ I_te) = card (set (I_train @ I_val @ I_te))"
    using d by (simp only: distinct_card)
  also have "set (I_train @ I_val @ I_te) = {..<length (rows ds)}"
    using u by (simp add: Un_assoc)
  finally have len: "length (rows train) + length (rows val) + length (rows test) = length (rows ds)"
    by (simp add: tr va te rows_select_rows I_train_def I_val_def)
  from res have pre: "\<bar>train_ratio + val_ratio + test_ratio - 1\<bar> < 1 / 1000000"
    "train_ratio + val_ratio \<noteq> 0" "rows ds \<noteq> []"
    unfolding split_dataset_Inr by blast+
  have again: "split_dataset sp ds' train_ratio val_ratio test_ratio seed =
      Inr (select_rows ds' I_train, select_rows ds' I_val, select_rows ds' I_te)"
    if l: "length (rows ds') = length (rows ds)" for ds'
  proof -
    from l pre(3) have ne: "rows ds' \<noteq> []" by auto
    show ?thesis
      unfolding I_train_def I_val_def
      by (rule split_dataset_from_indices [OF pre(1,2) ne]) (simp_all only: l s1 r1 s2 r2)
  qed
  from tr va te d disj u len again show ?thesis
    unfolding I_train_def [symmetric] I_val_def [symmetric] by blast
qed

lemma split_example:
  "split_dataset simple_splitter (conversations 10) (8 / 10) (1 / 10) (1 / 10) 42 =
     Inr (select_rows (conversations 10) [0, 1, 2, 3, 4, 5, 6, 7],
          select_rows (conversations 10) [8], select_rows (conversations 10) [9])"
  by (simp add: split_dataset_def train_test_split_def simple_splitter_def Let_def
      select_rows_def conversations_def upt_rec)


text \<open>Ten records split 80/10/10 with seed 42.\<close>

theorem split_partition_witness:
  "splitter_partitions simple_splitter \<and>
   split_dataset simple_splitter (conversations 10) (8 / 10) (1 / 10) (1 / 10) 42 =
     Inr (select_rows (conversations 10) [0, 1, 2, 3, 4, 5, 6, 7],
          select_rows (conversations 10) [8], select_rows (conversations 10) [9]) \<and>
   (\<exists>I_train I_val I_test.
      select_rows (conversations 10) [0, 1, 2, 3, 4, 5, 6, 7] = select_rows (conversations 10) I_train \<and>
      select_rows (conversations 10) [8] = select_rows (conversations 10) I_val \<and>
      select_rows (conversations 10) [9] = select_rows (conversations 10) I_test \<and>
      distinct (I_train @ I_val @ I_test) \<and>
      set I_train \<union> set I_val \<union> set I_test = {..<length (rows (conversations 10))}) \<and>
   length (rows (select_rows (conversations 10) [0, 1, 2, 3, 4, 5, 6, 7])) +
   length (rows (select_rows (conversations 10) [8])) +
   length (rows (select_rows (conversations 10) [9])) = length (rows (conversations 10))"
proof -
  note t = split_partition [OF simple_splitter_partitions split_example]
  from t simple_splitter_partitions split_example show ?thesis by blast
qed

text \<open>
  Claim C4 as stated fails: the ratios 0, 0 and 1 meet the precondition, and the
  partitioner returns no partition for them.
\<close>

theorem split_zero_train_val_counterexample:
  "spec_valid_ratios 0 0 1 \<and>
   split_dataset simple_splitter (conversations 3) 0 0 1 42 = Inl ZeroDivisionError"
  by (simp add: spec_valid_ratios_def split_dataset_def train_test_split_def
      simple_splitter_def Let_def conversations_def upt_rec)







end
